theory Spec2Isabelle
  imports Complex_Main "HOL-Library.Multiset"
begin

section \<open>Strings\<close>

text \<open>
  JavaScript strings are modelled as \<^typ>\<open>string\<close>, a list of character codes, restricted
  to the ASCII range. \<open>toLowerCase\<close> maps the letters A to Z to a to z and leaves every
  other code alone; \<open>includes_str\<close> is the substring test of \<open>String.prototype.includes\<close>.
\<close>

definition lower_char :: "char \<Rightarrow> char" where
  "lower_char c =
     (let n = (of_char c :: nat) in if 65 \<le> n \<and> n \<le> 90 then char_of (n + 32) else c)"

definition toLowerCase :: "string \<Rightarrow> string" where
  "toLowerCase s = map lower_char s"

fun startsWith :: "string \<Rightarrow> string \<Rightarrow> bool" where
  "startsWith s [] = True"
| "startsWith [] (q # qs) = False"
| "startsWith (c # cs) (q # qs) = (c = q \<and> startsWith cs qs)"

fun includes_str :: "string \<Rightarrow> string \<Rightarrow> bool" where
  "includes_str [] q = (q = [])"
| "includes_str (c # cs) q = (startsWith (c # cs) q \<or> includes_str cs q)"

text \<open>
  The order of \<open>Array.prototype.sort()\<close> without a comparator: strings are compared code
  unit by code unit, a proper prefix coming first.
\<close>

fun str_less :: "string \<Rightarrow> string \<Rightarrow> bool" where
  "str_less [] [] = False"
| "str_less [] (y # ys) = True"
| "str_less (x # xs) [] = False"
| "str_less (x # xs) (y # ys) =
     (if (of_char x :: nat) < of_char y then True
      else if (of_char y :: nat) < of_char x then False
      else str_less xs ys)"

definition default_compare :: "string \<Rightarrow> string \<Rightarrow> rat" where
  "default_compare x y = (if str_less x y then - 1 else if str_less y x then 1 else 0)"

section \<open>Arrays\<close>

text \<open>
  \<open>Array.prototype.sort(comparefn)\<close> is stable (ECMAScript 2019): it is modelled as the
  stable insertion sort. An element goes in front of the first element that the comparator
  does not put before it (\<open>comparefn(x, y) \<le> 0\<close>), so that of two elements the comparator
  calls equal the one that came first stays first.
\<close>

fun sort_insert :: "('a \<Rightarrow> 'a \<Rightarrow> rat) \<Rightarrow> 'a \<Rightarrow> 'a list \<Rightarrow> 'a list" where
  "sort_insert cmp x [] = [x]"
| "sort_insert cmp x (y # ys) =
     (if cmp x y \<le> 0 then x # y # ys else y # sort_insert cmp x ys)"

fun js_sort :: "('a \<Rightarrow> 'a \<Rightarrow> rat) \<Rightarrow> 'a list \<Rightarrow> 'a list" where
  "js_sort cmp [] = []"
| "js_sort cmp (x # xs) = sort_insert cmp x (js_sort cmp xs)"

text \<open>\<open>[...new Set(xs)]\<close>: the distinct elements of \<open>xs\<close>, each at its first occurrence.\<close>

fun new_Set :: "'a list \<Rightarrow> 'a list \<Rightarrow> 'a list" where
  "new_Set seen [] = rev seen"
| "new_Set seen (x # xs) = (if x \<in> set seen then new_Set seen xs else new_Set (x # seen) xs)"

text \<open>
  \<open>.filter(Boolean)\<close> on the genre column: a missing genre (\<open>undefined\<close>, \<open>null\<close>) and the
  empty string are falsy and dropped.
\<close>

fun filter_Boolean :: "string option list \<Rightarrow> string list" where
  "filter_Boolean [] = []"
| "filter_Boolean (None # vs) = filter_Boolean vs"
| "filter_Boolean (Some s # vs) = (if s = [] then filter_Boolean vs else s # filter_Boolean vs)"

section \<open>Movies and the filter/sort engine\<close>

text \<open>
  A catalog entry as the page reads it: \<open>movie.id\<close>, \<open>movie.title\<close>, and the optional
  \<open>movie.description\<close>, \<open>movie.genre\<close>, \<open>movie.rating\<close>, \<open>movie.year\<close> (\<open>None\<close> is a
  field that is \<open>undefined\<close> or \<open>null\<close>). A rating is a finite number; the sign of the
  difference of two finite doubles is the sign of their exact difference, so the comparator
  is computed on rationals.
\<close>

record movie =
  movie_id :: int
  title :: string
  description :: "string option"
  genre :: "string option"
  rating :: "rat option"
  year :: "int option"

text \<open>\<open>v || 0\<close> on an optional number: a missing value and 0 both give 0.\<close>

definition or0 :: "'a::zero option \<Rightarrow> 'a" where
  "or0 v = (case v of None \<Rightarrow> 0 | Some r \<Rightarrow> r)"

text \<open>
  \<open>matchesSearch\<close>: \<open>movie.description && ...\<close> is falsy for a missing and for an empty
  description.
\<close>

definition matchesSearch :: "string \<Rightarrow> movie \<Rightarrow> bool" where
  "matchesSearch searchTerm m =
     (includes_str (toLowerCase (title m)) (toLowerCase searchTerm) \<or>
      (case description m of
         None \<Rightarrow> False
       | Some d \<Rightarrow> d \<noteq> [] \<and> includes_str (toLowerCase d) (toLowerCase searchTerm)))"

definition matchesGenre :: "string \<Rightarrow> movie \<Rightarrow> bool" where
  "matchesGenre selectedGenre m = (selectedGenre = ''All'' \<or> genre m = Some selectedGenre)"

text \<open>
  The comparator of \<open>filtered.sort\<close>. \<open>localeCompare\<close> is the host's collation and is a
  parameter of the model.
\<close>

definition compare_movies ::
  "(string \<Rightarrow> string \<Rightarrow> rat) \<Rightarrow> string \<Rightarrow> movie \<Rightarrow> movie \<Rightarrow> rat" where
  "compare_movies localeCompare sortBy a b =
     (if sortBy = ''title'' then localeCompare (title a) (title b)
      else if sortBy = ''rating'' then or0 (rating b) - or0 (rating a)
      else if sortBy = ''year'' then of_int (or0 (year b) - or0 (year a))
      else 0)"

definition filteredAndSortedMovies ::
  "(string \<Rightarrow> string \<Rightarrow> rat) \<Rightarrow> movie list \<Rightarrow> string \<Rightarrow> string \<Rightarrow> string \<Rightarrow> movie list" where
  "filteredAndSortedMovies localeCompare movies searchTerm selectedGenre sortBy =
     js_sort (compare_movies localeCompare sortBy)
       (filter (\<lambda>m. matchesSearch searchTerm m \<and> matchesGenre selectedGenre m) movies)"

definition genres :: "movie list \<Rightarrow> string list" where
  "genres movies =
     ''All'' # js_sort default_compare (new_Set [] (filter_Boolean (map genre movies)))"

section \<open>Favorites\<close>

text \<open>The updater that \<open>toggleFavorite\<close> passes to \<open>setFavorites\<close>.\<close>

definition toggle_update :: "int \<Rightarrow> int list \<Rightarrow> int list" where
  "toggle_update movieId prev =
     (if movieId \<in> set prev then filter (\<lambda>i. i \<noteq> movieId) prev else prev @ [movieId])"

text \<open>
  The persistence effect serialises the list with \<open>JSON.stringify\<close>. On an array of
  integers (of magnitude below \<open>10^21\<close>, where JavaScript prints every digit) it writes the
  decimal numerals between brackets, separated by commas.
\<close>

fun show_nat :: "nat \<Rightarrow> string" where
  "show_nat n =
     (if n < 10 then [char_of (48 + n)] else show_nat (n div 10) @ [char_of (48 + n mod 10)])"

declare show_nat.simps [simp del]

definition show_int :: "int \<Rightarrow> string" where
  "show_int i = (if i < 0 then CHR ''-'' # show_nat (nat (- i)) else show_nat (nat i))"

fun join_comma :: "string list \<Rightarrow> string" where
  "join_comma [] = []"
| "join_comma [s] = s"
| "join_comma (s # t # ts) = s @ CHR '','' # join_comma (t # ts)"

definition JSON_stringify :: "int list \<Rightarrow> string" where
  "JSON_stringify ids = CHR ''['' # join_comma (map show_int ids) @ '']''"

text \<open>
  The favorites as React holds them. \<open>setFavorites(updater)\<close> does not change the state
  during the call: React queues the updater and applies the queue at the next render of the
  component. The effect \<open>localStorage.setItem('movieFavorites', JSON.stringify(favorites))\<close>
  has the dependency list \<open>[favorites]\<close>: React runs it after a render in which
  \<open>favorites\<close> is a new array, which every updater of \<open>toggleFavorite\<close> returns.
  \<open>stored\<close> is the entry \<open>movieFavorites\<close> of \<open>localStorage\<close>.
\<close>

record favorites_store =
  favorites :: "int list"
  queue :: "(int list \<Rightarrow> int list) list"
  stored :: "string option"

definition toggleFavorite :: "int \<Rightarrow> favorites_store \<Rightarrow> favorites_store" where
  "toggleFavorite movieId st = st\<lparr>queue := queue st @ [toggle_update movieId]\<rparr>"

definition persist_effect :: "(int list \<Rightarrow> string) \<Rightarrow> favorites_store \<Rightarrow> favorites_store" where
  "persist_effect stringify st = st\<lparr>stored := Some (stringify (favorites st))\<rparr>"

definition render :: "(int list \<Rightarrow> string) \<Rightarrow> favorites_store \<Rightarrow> favorites_store" where
  "render stringify st =
     (case queue st of
        [] \<Rightarrow> st
      | u # us \<Rightarrow>
          persist_effect stringify
            (st\<lparr>favorites := fold (\<lambda>f prev. f prev) (u # us) (favorites st), queue := []\<rparr>))"

section \<open>JSON values\<close>

text \<open>
  A JavaScript number is \<open>NaN\<close>, an infinity or a finite value (0 and -0 are not told
  apart: both are falsy and neither is \<open>NaN\<close>). \<open>jsval\<close> are the values a JSON body can
  hold, and \<open>undefined\<close>.
\<close>

datatype number = NaN | Infinity | NegInfinity | Finite rat

datatype jsval =
  JUndefined
| JNull
| JBool bool
| JNum number
| JStr string
| JArr "jsval list"
| JObj "(string \<times> jsval) list"

definition truthy_number :: "number \<Rightarrow> bool" where
  "truthy_number n = (n \<noteq> NaN \<and> n \<noteq> Finite 0)"

fun truthy :: "jsval \<Rightarrow> bool" where
  "truthy JUndefined = False"
| "truthy JNull = False"
| "truthy (JBool b) = b"
| "truthy (JNum n) = truthy_number n"
| "truthy (JStr s) = (s \<noteq> [])"
| "truthy (JArr xs) = True"
| "truthy (JObj kvs) = True"

text \<open>\<open>a || b\<close>\<close>

definition or_js :: "jsval \<Rightarrow> jsval \<Rightarrow> jsval" where
  "or_js a b = (if truthy a then a else b)"

text \<open>\<open>Array.isArray(v) ? v : []\<close>\<close>

fun isArray :: "jsval \<Rightarrow> bool" where
  "isArray (JArr xs) = True"
| "isArray v = False"

fun array_or_empty :: "jsval \<Rightarrow> jsval list" where
  "array_or_empty (JArr xs) = xs"
| "array_or_empty v = []"

text \<open>
  \<open>v?.key\<close> for the keys \<open>error\<close> and \<open>detail\<close>: \<open>undefined\<close> on \<open>undefined\<close> and
  \<open>null\<close>, the property of an object when it has one, and \<open>undefined\<close> on every other
  value (no string, number, boolean or array has a property of either name).
\<close>

fun opt_prop :: "jsval \<Rightarrow> string \<Rightarrow> jsval" where
  "opt_prop (JObj kvs) key = (case map_of kvs key of None \<Rightarrow> JUndefined | Some v \<Rightarrow> v)"
| "opt_prop v key = JUndefined"

datatype js_error = TypeError | SyntaxError

section \<open>Initial favorites\<close>

text \<open>
  The initialiser of the \<open>favorites\<close> state:
  \<open>saved ? JSON.parse(saved) : []\<close>, where \<open>saved\<close> is \<open>localStorage.getItem\<close> of the key
  (\<open>None\<close> is \<open>null\<close>, the key is absent). \<open>JSON.parse\<close> is the host's parser and a
  parameter of the model; it gives \<open>None\<close> where it throws a \<open>SyntaxError\<close>, which nothing
  in the initialiser catches.
\<close>

definition favorites_init :: "(string \<Rightarrow> jsval option) \<Rightarrow> string option \<Rightarrow> js_error + jsval" where
  "favorites_init JSON_parse saved =
     (case saved of
        None \<Rightarrow> Inr (JArr [])
      | Some s \<Rightarrow>
          if s \<noteq> [] then
            (case JSON_parse s of None \<Rightarrow> Inl SyntaxError | Some v \<Rightarrow> Inr v)
          else Inr (JArr []))"

section \<open>Requests and effects\<close>

text \<open>
  A movie id as \<open>fetchRecommended\<close> receives it: \<open>movie.id\<close> of a catalog entry, or the
  state \<open>selectedMovieId\<close>, which starts as \<open>null\<close>.
\<close>

datatype idval = IdUndefined | IdNull | IdNum number

text \<open>\<open>!movieId\<close> is the negation of \<open>truthy_id\<close>; \<open>isNaN\<close> converts to a number first
  (\<open>undefined\<close> to \<open>NaN\<close>, \<open>null\<close> to 0).\<close>

fun truthy_id :: "idval \<Rightarrow> bool" where
  "truthy_id IdUndefined = False"
| "truthy_id IdNull = False"
| "truthy_id (IdNum n) = truthy_number n"

fun isNaN :: "idval \<Rightarrow> bool" where
  "isNaN IdUndefined = True"
| "isNaN IdNull = False"
| "isNaN (IdNum n) = (n = NaN)"

text \<open>
  The URL of a request is the template string of the source, the interpolated movie id kept
  as a value.
\<close>

datatype url_part = Lit string | Interp idval

type_synonym url = "url_part list"

text \<open>
  What \<open>await API.get(url)\<close> gives: a response with its \<open>data\<close>, or a rejection with an
  error whose \<open>response\<close> may be missing (no answer from the server) and otherwise carries
  the body \<open>data\<close>.
\<close>

datatype api_result = Resolved jsval | Rejected "jsval option"

text \<open>\<open>err.response?.data\<close>\<close>

fun response_data :: "jsval option \<Rightarrow> jsval" where
  "response_data None = JUndefined"
| "response_data (Some d) = d"

text \<open>
  What a handler does, in the order of the source: calls of the state setters, the request,
  and the console output (its first argument only).
\<close>

datatype effect =
  SetMovies "jsval list"
| SetRecommended "jsval list"
| SetSelectedMovieId idval
| SetLoading bool
| SetRecLoading bool
| SetError jsval
| SetRecommendationError jsval
| ApiGet url
| ConsoleLog string
| ConsoleError string

datatype outcome = Returned | Threw js_error

record home_state =
  movies :: "jsval list"
  recommended :: "jsval list"
  selectedMovieId :: idval
  loading :: bool
  recLoading :: bool
  error :: jsval
  recommendationError :: jsval

fun apply_effect :: "effect \<Rightarrow> home_state \<Rightarrow> home_state" where
  "apply_effect (SetMovies v) st = st\<lparr>movies := v\<rparr>"
| "apply_effect (SetRecommended v) st = st\<lparr>recommended := v\<rparr>"
| "apply_effect (SetSelectedMovieId v) st = st\<lparr>selectedMovieId := v\<rparr>"
| "apply_effect (SetLoading v) st = st\<lparr>loading := v\<rparr>"
| "apply_effect (SetRecLoading v) st = st\<lparr>recLoading := v\<rparr>"
| "apply_effect (SetError v) st = st\<lparr>error := v\<rparr>"
| "apply_effect (SetRecommendationError v) st = st\<lparr>recommendationError := v\<rparr>"
| "apply_effect (ApiGet u) st = st"
| "apply_effect (ConsoleLog s) st = st"
| "apply_effect (ConsoleError s) st = st"

definition run :: "effect list \<Rightarrow> home_state \<Rightarrow> home_state" where
  "run effects st = fold apply_effect effects st"

text \<open>The requests among the effects of a handler.\<close>

fun requests :: "effect list \<Rightarrow> url list" where
  "requests [] = []"
| "requests (ApiGet u # es) = u # requests es"
| "requests (e # es) = requests es"

section \<open>Loading the catalog\<close>

text \<open>
  \<open>fetchMovies\<close>: the \<open>try\<close> block up to the request, then the rest of it on a response or
  the \<open>catch\<close> block on a rejection, then the \<open>finally\<close> block. \<open>api\<close> is the backend's
  answer to a request.
\<close>

definition error_message :: "jsval option \<Rightarrow> string \<Rightarrow> jsval" where
  "error_message err fallback =
     or_js (or_js (opt_prop (response_data err) ''error'') (opt_prop (response_data err) ''detail''))
       (JStr fallback)"

definition fetchMovies :: "(url \<Rightarrow> api_result) \<Rightarrow> effect list \<times> outcome" where
  "fetchMovies api =
     (let url = [Lit ''movies/''];
          started = [SetLoading True, ApiGet url]
      in case api url of
           Resolved data \<Rightarrow>
             (started @
              [ConsoleLog ''Fetched movies:'', SetMovies (array_or_empty data), SetError JNull,
               SetLoading False], Returned)
         | Rejected err \<Rightarrow>
             (started @
              [SetError (error_message err ''Failed to load movies. Please try again later.''),
               ConsoleError ''Error fetching movies:'', SetLoading False], Returned))"

section \<open>Recommendations\<close>

text \<open>
  The message of the \<open>catch\<close> block. In collaborative mode the source calls
  \<open>errorMsg.toLowerCase()\<close>: the message is truthy, so when it is not a string the call
  throws a \<open>TypeError\<close>.
\<close>

definition augment :: "string \<Rightarrow> jsval \<Rightarrow> js_error + jsval" where
  "augment recType errorMsg =
     (if recType = ''collaborative'' then
        (case errorMsg of
           JStr s \<Rightarrow>
             if includes_str (toLowerCase s) ''tmdb''
             then Inr (JStr (s @ '' Collaborative recommendations rely on TMDb data.''))
             else if includes_str (toLowerCase s) ''no local movies match'' then Inr (JStr s)
             else Inr (JStr s)
         | _ \<Rightarrow> Inl TypeError)
      else Inr errorMsg)"

text \<open>
  \<open>fetchRecommended\<close>, with the mode \<open>recType\<close> that the handler reads from the state of
  the component. The check of the movie id comes first and returns; the \<open>finally\<close> block
  runs on every path through the \<open>try\<close> statement.
\<close>

definition invalid_movieId :: "idval \<Rightarrow> bool" where
  "invalid_movieId movieId = (\<not> truthy_id movieId \<or> isNaN movieId)"

definition fetchRecommended ::
  "(url \<Rightarrow> api_result) \<Rightarrow> string \<Rightarrow> idval \<Rightarrow> effect list \<times> outcome" where
  "fetchRecommended api recType movieId =
     (if invalid_movieId movieId then
        ([ConsoleError ''Invalid movieId:'',
          SetRecommendationError (JStr ''Please select a valid movie.'')], Returned)
      else
        let endpoint =
              (if recType = ''collaborative'' then ''collaborative_recommended/''
               else ''recommended/'');
            url = [Lit endpoint, Lit ''?id='', Interp movieId,
                   Lit (if recType \<noteq> ''collaborative'' then ''&type='' @ recType else [])];
            started = [SetRecLoading True, SetRecommendationError JNull, SetRecommended [],
                       ConsoleLog ''Fetching recommendations'', ApiGet url]
        in case api url of
             Resolved data \<Rightarrow>
               (started @
                [ConsoleLog ''Recommendation response:'', SetRecommended (array_or_empty data),
                 SetSelectedMovieId movieId, SetRecLoading False], Returned)
           | Rejected err \<Rightarrow>
               (case augment recType
                       (error_message err ''Failed to load recommendations. Please try again.'') of
                  Inl e \<Rightarrow> (started @ [SetRecLoading False], Threw e)
                | Inr errorMsg \<Rightarrow>
                    (started @
                     [SetRecommendationError errorMsg,
                      ConsoleError ''Error fetching recommendations:'', SetRecommended [],
                      SetRecLoading False], Returned)))"

section \<open>Sample data\<close>

text \<open>Two catalog entries, used to run the definitions on concrete input.\<close>

definition dune :: movie where
  "dune = \<lparr>movie_id = 1, title = ''Dune'', description = None, genre = Some ''Sci-Fi'',
            rating = Some (9 / 2), year = None\<rparr>"

definition her :: movie where
  "her = \<lparr>movie_id = 2, title = ''Her'', description = Some ''A lonely writer'',
           genre = Some ''Drama'', rating = Some (9 / 2), year = Some 2013\<rparr>"

text \<open>A backend that answers every request with the empty list.\<close>

definition backend_empty :: "url \<Rightarrow> api_result" where
  "backend_empty u = Resolved (JArr [])"

text \<open>A backend that answers every request with a body that is an object, not a list.\<close>

definition backend_object :: "url \<Rightarrow> api_result" where
  "backend_object u = Resolved (JObj [(''count'', JNum (Finite 0))])"

text \<open>The page with one recommendation on display and a catalog error left by the last load.\<close>

definition shown_state :: home_state where
  "shown_state =
     \<lparr>movies = [], recommended = [JObj [(''title'', JStr ''Arrival'')]],
      selectedMovieId = IdNum (Finite 1), loading = False, recLoading = False,
      error = JStr ''stale'', recommendationError = JNull\<rparr>"

text \<open>No favorites yet, the effect has run once, no update is waiting.\<close>

definition store0 :: favorites_store where
  "store0 = \<lparr>favorites = [], queue = [], stored = Some ''[]''\<rparr>"

text \<open>
  A parser that agrees with \<open>JSON.parse\<close> on the three texts of the examples: it reads
  \<open>[1,2]\<close>, and it rejects \<open>{\<close> and \<open>not json\<close>.
\<close>

definition parse_sample :: "string \<Rightarrow> jsval option" where
  "parse_sample s =
     (if s = ''[1,2]'' then Some (JArr [JNum (Finite 1), JNum (Finite 2)]) else None)"

section \<open>Strings and sorting: basic facts\<close>

lemma startsWith_iff: "startsWith s q \<longleftrightarrow> (\<exists>suf. s = q @ suf)"
  by (induction s q rule: startsWith.induct) auto

text \<open>\<open>includes_str s q\<close> holds exactly when \<open>q\<close> occurs in \<open>s\<close> as a contiguous block.\<close>

lemma includes_str_iff: "includes_str s q \<longleftrightarrow> (\<exists>pre suf. s = pre @ q @ suf)"
proof (induction s)
  case Nil
  then show ?case by auto
next
  case (Cons c cs)
  show ?case
  proof
    assume "includes_str (c # cs) q"
    then consider "startsWith (c # cs) q" | "includes_str cs q" by auto
    then show "\<exists>pre suf. c # cs = pre @ q @ suf"
    proof cases
      case 1
      then obtain suf where "c # cs = q @ suf" by (auto simp: startsWith_iff)
      then have "c # cs = [] @ q @ suf" by simp
      then show ?thesis by blast
    next
      case 2
      then obtain pre suf where "cs = pre @ q @ suf" using Cons.IH by auto
      then have "c # cs = (c # pre) @ q @ suf" by simp
      then show ?thesis by blast
    qed
  next
    assume "\<exists>pre suf. c # cs = pre @ q @ suf"
    then obtain pre suf where e: "c # cs = pre @ q @ suf" by blast
    show "includes_str (c # cs) q"
    proof (cases pre)
      case Nil
      with e have "startsWith (c # cs) q" by (auto simp: startsWith_iff)
      then show ?thesis by simp
    next
      case (Cons p ps)
      with e have "cs = ps @ q @ suf" by simp
      then have "includes_str cs q" using Cons.IH by blast
      then show ?thesis by simp
    qed
  qed
qed

lemma includes_str_empty: "includes_str s []"
  by (cases s) auto

lemma str_less_irrefl: "\<not> str_less x x"
  by (induction x) auto

lemma str_less_total: "x \<noteq> y \<Longrightarrow> \<not> str_less x y \<Longrightarrow> str_less y x"
  by (induction x y rule: str_less.induct) (auto split: if_splits)

lemma str_less_trans: "str_less x y \<Longrightarrow> str_less y z \<Longrightarrow> str_less x z"
proof (induction x y arbitrary: z rule: str_less.induct)
  case (4 x xs y ys)
  then show ?case by (cases z) (auto split: if_splits)
qed (auto elim: str_less.elims)

lemma str_less_asym: "str_less x y \<Longrightarrow> \<not> str_less y x"
  using str_less_trans str_less_irrefl by blast

lemma default_compare_le: "default_compare a b \<le> 0 \<longleftrightarrow> \<not> str_less b a"
  by (auto simp: default_compare_def dest: str_less_asym)

lemma set_sort_insert: "set (sort_insert cmp x ys) = insert x (set ys)"
  by (induction ys) auto

lemma mset_sort_insert: "mset (sort_insert cmp x ys) = add_mset x (mset ys)"
  by (induction ys) auto

lemma mset_js_sort: "mset (js_sort cmp xs) = mset xs"
  by (induction xs) (auto simp: mset_sort_insert)

lemma set_js_sort: "set (js_sort cmp xs) = set xs"
  by (induction xs) (auto simp: set_sort_insert)

lemma distinct_js_sort: "distinct (js_sort cmp xs) = distinct xs"
  by (rule mset_eq_imp_distinct_iff) (rule mset_js_sort)

text \<open>
  For a comparator that is total and transitive (a consistent comparator), the result of
  \<open>js_sort\<close> is ordered by it.
\<close>

lemma sorted_wrt_sort_insert:
  assumes tot: "\<And>a b. \<not> cmp a b \<le> 0 \<Longrightarrow> cmp b a \<le> 0"
    and tr: "\<And>a b c. cmp a b \<le> 0 \<Longrightarrow> cmp b c \<le> 0 \<Longrightarrow> cmp a c \<le> 0"
  shows "sorted_wrt (\<lambda>a b. cmp a b \<le> 0) ys \<Longrightarrow>
    sorted_wrt (\<lambda>a b. cmp a b \<le> 0) (sort_insert cmp x ys)"
proof (induction ys)
  case Nil
  then show ?case by simp
next
  case (Cons y ys)
  show ?case
  proof (cases "cmp x y \<le> 0")
    case True
    then have "\<forall>z\<in>set ys. cmp x z \<le> 0" using Cons.prems tr by auto
    with True Cons.prems show ?thesis by simp
  next
    case False
    then have "cmp y x \<le> 0" by (rule tot)
    with False Cons show ?thesis by (auto simp: set_sort_insert)
  qed
qed

lemma sorted_wrt_js_sort:
  assumes tot: "\<And>a b. \<not> cmp a b \<le> 0 \<Longrightarrow> cmp b a \<le> 0"
    and tr: "\<And>a b c. cmp a b \<le> 0 \<Longrightarrow> cmp b c \<le> 0 \<Longrightarrow> cmp a c \<le> 0"
  shows "sorted_wrt (\<lambda>a b. cmp a b \<le> 0) (js_sort cmp xs)"
  by (induction xs) (auto intro: sorted_wrt_sort_insert [OF tot tr])

text \<open>
  Stability: elements that the comparator does not separate come out in the order in which
  they went in.
\<close>

lemma filter_sort_insert:
  assumes "\<And>y. P x \<Longrightarrow> P y \<Longrightarrow> cmp x y \<le> 0"
  shows "filter P (sort_insert cmp x ys) = (if P x then x # filter P ys else filter P ys)"
  using assms by (induction ys) auto

lemma filter_js_sort:
  assumes "\<And>x y. P x \<Longrightarrow> P y \<Longrightarrow> cmp x y \<le> 0"
  shows "filter P (js_sort cmp xs) = filter P xs"
  using assms by (induction xs) (auto simp: filter_sort_insert)

lemma sorted_default: "sorted_wrt (\<lambda>a b. \<not> str_less b a) (js_sort default_compare xs)"
proof -
  have "sorted_wrt (\<lambda>a b. default_compare a b \<le> 0) (js_sort default_compare xs)"
  proof (rule sorted_wrt_js_sort)
    fix a b assume "\<not> default_compare a b \<le> 0"
    then show "default_compare b a \<le> 0"
      by (auto simp: default_compare_le dest: str_less_asym)
  next
    fix a b c assume "default_compare a b \<le> 0" "default_compare b c \<le> 0"
    then show "default_compare a c \<le> 0"
      unfolding default_compare_le
      by (metis str_less_total str_less_trans)
  qed
  then show ?thesis by (simp add: default_compare_le)
qed

lemma strictly_sorted_default:
  assumes "distinct xs"
  shows "sorted_wrt str_less (js_sort default_compare xs)"
proof -
  have d: "distinct (js_sort default_compare xs)" using assms by (simp add: distinct_js_sort)
  have "sorted_wrt (\<lambda>a b. \<not> str_less b a) ys \<Longrightarrow> distinct ys \<Longrightarrow> sorted_wrt str_less ys" for ys
    by (induction ys) (auto intro: str_less_total)
  then show ?thesis using sorted_default [of xs] d by blast
qed

lemma set_filter_Boolean: "set (filter_Boolean vs) = {g. g \<noteq> [] \<and> Some g \<in> set vs}"
  by (induction vs rule: filter_Boolean.induct) auto

lemma set_new_Set: "set (new_Set seen xs) = set seen \<union> set xs"
  by (induction seen xs rule: new_Set.induct) auto

lemma distinct_new_Set: "distinct seen \<Longrightarrow> distinct (new_Set seen xs)"
  by (induction seen xs rule: new_Set.induct) auto

section \<open>The filter/sort engine\<close>

lemma set_filteredAndSortedMovies:
  "set (filteredAndSortedMovies lc C q g k) =
     {m \<in> set C. matchesSearch q m \<and> matchesGenre g m}"
  by (auto simp: filteredAndSortedMovies_def set_js_sort)

lemma matchesSearch_empty: "matchesSearch [] m"
  by (simp add: matchesSearch_def toLowerCase_def includes_str_empty)

lemma compare_rating_le:
  "compare_movies lc ''rating'' a b \<le> 0 \<longleftrightarrow> or0 (rating b) \<le> or0 (rating a)"
  by (simp add: compare_movies_def)

lemma search_dune: "filteredAndSortedMovies default_compare [dune, her] ''dU'' ''All'' ''rating'' = [dune]"
  by code_simp

lemma genre_drama: "filteredAndSortedMovies default_compare [dune, her] [] ''Drama'' ''title'' = [her]"
  by code_simp

text \<open>
  C5. Whatever the catalog, the query \<open>q\<close>, the collation and the sort key, every movie that
  \<open>filteredAndSortedMovies\<close> returns under the genre \<open>All\<close> has the lower-cased query as a
  contiguous part of its lower-cased title or of its lower-cased description; with the empty
  query and the genre \<open>All\<close> every movie of the catalog is returned; and with the empty query
  and a genre \<open>g\<close> other than \<open>All\<close> every returned movie has genre exactly \<open>g\<close>.
\<close>

theorem apply_filter_sound:
  "(\<forall>m \<in> set (filteredAndSortedMovies lc C q ''All'' k).
      (\<exists>pre suf. toLowerCase (title m) = pre @ toLowerCase q @ suf) \<or>
      (\<exists>d pre suf. description m = Some d \<and> toLowerCase d = pre @ toLowerCase q @ suf)) \<and>
   set (filteredAndSortedMovies lc C [] ''All'' k) = set C \<and>
   (g \<noteq> ''All'' \<longrightarrow> (\<forall>m \<in> set (filteredAndSortedMovies lc C [] g k). genre m = Some g))"
proof (intro conjI ballI impI)
  fix m assume "m \<in> set (filteredAndSortedMovies lc C q ''All'' k)"
  then have "matchesSearch q m" by (simp add: set_filteredAndSortedMovies)
  then show "(\<exists>pre suf. toLowerCase (title m) = pre @ toLowerCase q @ suf) \<or>
      (\<exists>d pre suf. description m = Some d \<and> toLowerCase d = pre @ toLowerCase q @ suf)"
    by (auto simp: matchesSearch_def includes_str_iff split: option.splits)
next
  show "set (filteredAndSortedMovies lc C [] ''All'' k) = set C"
    by (simp add: set_filteredAndSortedMovies matchesSearch_empty matchesGenre_def)
next
  fix m assume "g \<noteq> ''All''" "m \<in> set (filteredAndSortedMovies lc C [] g k)"
  then show "genre m = Some g"
    by (simp add: set_filteredAndSortedMovies matchesGenre_def)
qed

theorem apply_filter_sound_witness:
  "dune \<in> set (filteredAndSortedMovies default_compare [dune, her] ''dU'' ''All'' ''rating'') \<and>
   ((\<exists>pre suf. toLowerCase (title dune) = pre @ toLowerCase ''dU'' @ suf) \<or>
    (\<exists>d pre suf. description dune = Some d \<and> toLowerCase d = pre @ toLowerCase ''dU'' @ suf)) \<and>
   ''Drama'' \<noteq> ''All'' \<and>
   her \<in> set (filteredAndSortedMovies default_compare [dune, her] [] ''Drama'' ''title'') \<and>
   genre her = Some ''Drama''"
  using apply_filter_sound [of default_compare "[dune, her]" "''dU''" "''rating''" "''Drama''"]
    apply_filter_sound [of default_compare "[dune, her]" "''dU''" "''title''" "''Drama''"]
  by (simp add: search_dune genre_drama)

text \<open>
  C6. Whatever the catalog, the query, the genre and the collation, the list returned for the
  sort key \<open>rating\<close> is non-increasing in the rating, a missing rating counting as 0; the
  movies of any one rating appear in the order they have in the filtered catalog; and the
  list is a rearrangement of the filtered catalog.
\<close>

theorem apply_rating_sorted_stable:
  "sorted_wrt (\<lambda>a b. or0 (rating b) \<le> or0 (rating a))
     (filteredAndSortedMovies lc C q g ''rating'') \<and>
   (\<forall>r. filter (\<lambda>m. or0 (rating m) = r) (filteredAndSortedMovies lc C q g ''rating'') =
        filter (\<lambda>m. or0 (rating m) = r)
          (filter (\<lambda>m. matchesSearch q m \<and> matchesGenre g m) C)) \<and>
   mset (filteredAndSortedMovies lc C q g ''rating'') =
     mset (filter (\<lambda>m. matchesSearch q m \<and> matchesGenre g m) C)"
proof (intro conjI allI)
  let ?cmp = "compare_movies lc ''rating''"
  have "sorted_wrt (\<lambda>a b. ?cmp a b \<le> 0) (js_sort ?cmp xs)" for xs
    by (rule sorted_wrt_js_sort) (auto simp: compare_rating_le)
  then show "sorted_wrt (\<lambda>a b. or0 (rating b) \<le> or0 (rating a))
     (filteredAndSortedMovies lc C q g ''rating'')"
    by (simp add: filteredAndSortedMovies_def compare_rating_le)
next
  fix r
  show "filter (\<lambda>m. or0 (rating m) = r) (filteredAndSortedMovies lc C q g ''rating'') =
        filter (\<lambda>m. or0 (rating m) = r)
          (filter (\<lambda>m. matchesSearch q m \<and> matchesGenre g m) C)"
    unfolding filteredAndSortedMovies_def
    by (rule filter_js_sort) (simp add: compare_rating_le)
next
  show "mset (filteredAndSortedMovies lc C q g ''rating'') =
     mset (filter (\<lambda>m. matchesSearch q m \<and> matchesGenre g m) C)"
    by (simp add: filteredAndSortedMovies_def mset_js_sort)
qed

text \<open>
  The genre \<open>All\<close> in the catalog: the list then holds \<open>All\<close> twice, once as the
  sentinel and once as a genre (C7 as stated, without duplicates, fails here).
\<close>

theorem genres_duplicate_All_counterexample:
  "genres [dune\<lparr>genre := Some ''All''\<rparr>] = [''All'', ''All''] \<and>
   \<not> distinct (genres [dune\<lparr>genre := Some ''All''\<rparr>])"
  by (simp add: genres_def dune_def)

lemma genres_sample: "genres [dune, her, dune] = [''All'', ''Drama'', ''Sci-Fi'']"
  by code_simp

text \<open>
  C7, amended. For every catalog, \<open>genres\<close> is the element \<open>All\<close> followed by the non-empty
  genre values of the catalog, each once, in strictly ascending order of their code units; the
  whole list is free of duplicates when no movie of the catalog has the genre \<open>All\<close>.
\<close>

theorem genres_shape:
  "genres C \<noteq> [] \<and> hd (genres C) = ''All'' \<and>
   sorted_wrt str_less (tl (genres C)) \<and> distinct (tl (genres C)) \<and>
   set (tl (genres C)) = {g. g \<noteq> [] \<and> Some g \<in> genre ` set C} \<and>
   (Some ''All'' \<notin> genre ` set C \<longrightarrow> distinct (genres C))"
  by (auto simp: genres_def strictly_sorted_default distinct_new_Set distinct_js_sort
      set_js_sort set_new_Set set_filter_Boolean)

theorem genres_shape_witness:
  "Some ''All'' \<notin> genre ` set [dune, her, dune] \<and>
   genres [dune, her, dune] = [''All'', ''Drama'', ''Sci-Fi''] \<and>
   distinct (genres [dune, her, dune])"
proof -
  have h: "Some ''All'' \<notin> genre ` set [dune, her, dune]"
    by (simp add: dune_def her_def)
  with genres_shape [of "[dune, her, dune]"] have "distinct (genres [dune, her, dune])"
    by blast
  with h show ?thesis by (simp add: genres_sample)
qed

section \<open>Favorites\<close>

text \<open>
  C8. For every list of favorites \<open>S\<close> and every movie id, the updater of \<open>toggleFavorite\<close>
  applied twice gives a list with the same elements as \<open>S\<close>; applied once it removes the
  id when it is present and adds it when it is not.
\<close>

theorem toggle_twice:
  "set (toggle_update movieId (toggle_update movieId S)) = set S \<and>
   set (toggle_update movieId S) =
     (if movieId \<in> set S then set S - {movieId} else insert movieId (set S))"
  by (auto simp: toggle_update_def)

section \<open>Persistence of the favorites\<close>

lemma stringify_one: "JSON_stringify (toggle_update 1 []) = ''[1]''"
  by code_simp

text \<open>
  When \<open>toggleFavorite(1)\<close> returns, the entry of \<open>localStorage\<close> is what it was: the
  encoding of the list before the toggle, not of the toggled list (C4 as stated, with a
  write inside the call, fails here).
\<close>

theorem toggle_call_does_not_persist_counterexample:
  "stored (toggleFavorite 1 store0) = Some ''[]'' \<and>
   JSON_stringify (toggle_update 1 (favorites store0)) = ''[1]''"
  by (simp add: toggleFavorite_def store0_def stringify_one)

text \<open>
  C4, amended. A call of \<open>toggleFavorite\<close> queues the update and changes neither the
  favorites in memory nor the persisted entry. After the render that follows, with its
  persistence effect, the persisted entry is the encoding of the favorites in memory, and
  these are the toggled list when no other update was waiting.
\<close>

theorem toggle_persisted_after_render:
  "stored (toggleFavorite movieId st) = stored st \<and>
   favorites (toggleFavorite movieId st) = favorites st \<and>
   stored (render stringify (toggleFavorite movieId st)) =
     Some (stringify (favorites (render stringify (toggleFavorite movieId st)))) \<and>
   (queue st = [] \<longrightarrow>
      favorites (render stringify (toggleFavorite movieId st)) =
        toggle_update movieId (favorites st))"
  by (cases "queue st") (simp_all add: toggleFavorite_def render_def persist_effect_def)

theorem toggle_persisted_after_render_witness:
  "queue store0 = [] \<and>
   favorites (render JSON_stringify (toggleFavorite 1 store0)) = [1] \<and>
   stored (render JSON_stringify (toggleFavorite 1 store0)) = Some ''[1]''"
  using toggle_persisted_after_render [of 1 store0 JSON_stringify]
  by (simp add: store0_def toggle_update_def stringify_one [simplified toggle_update_def, simplified])

section \<open>Initial favorites\<close>

text \<open>
  A persisted text that is not JSON: the initialiser throws the parser's error instead of
  giving the empty list (C3 as stated fails here).
\<close>

theorem favorites_init_unparsable_counterexample:
  "favorites_init parse_sample (Some ''{'') = Inl SyntaxError"
  by (simp add: favorites_init_def parse_sample_def)

text \<open>
  C3, amended. Whatever the parser: an absent entry and an empty text give the empty list; a
  non-empty text that the parser reads gives the value read; a non-empty text that the parser
  rejects makes the initialiser fail with the \<open>SyntaxError\<close>.
\<close>

theorem favorites_init_cases:
  "favorites_init JSON_parse None = Inr (JArr []) \<and>
   favorites_init JSON_parse (Some []) = Inr (JArr []) \<and>
   (s \<noteq> [] \<and> JSON_parse s = Some v \<longrightarrow> favorites_init JSON_parse (Some s) = Inr v) \<and>
   (s \<noteq> [] \<and> JSON_parse s = None \<longrightarrow> favorites_init JSON_parse (Some s) = Inl SyntaxError)"
  by (simp add: favorites_init_def)

theorem favorites_init_cases_witness:
  "''[1,2]'' \<noteq> [] \<and> parse_sample ''[1,2]'' = Some (JArr [JNum (Finite 1), JNum (Finite 2)]) \<and>
   favorites_init parse_sample (Some ''[1,2]'') = Inr (JArr [JNum (Finite 1), JNum (Finite 2)]) \<and>
   ''not json'' \<noteq> [] \<and> parse_sample ''not json'' = None \<and>
   favorites_init parse_sample (Some ''not json'') = Inl SyntaxError"
  using favorites_init_cases [of parse_sample "''[1,2]''" "JArr [JNum (Finite 1), JNum (Finite 2)]"]
    favorites_init_cases [of parse_sample "''not json''" JNull]
  by (simp add: parse_sample_def)

section \<open>Loading the catalog\<close>

text \<open>
  C9. When the request of \<open>fetchMovies\<close> is answered with a body that is not a list, the
  handler returns without an error, the catalog is the empty list, the error of the catalog
  is \<open>null\<close> and the loading flag is off.
\<close>

theorem fetchMovies_non_list:
  "api [Lit ''movies/''] = Resolved d \<Longrightarrow> \<not> isArray d \<Longrightarrow>
     snd (fetchMovies api) = Returned \<and>
     movies (run (fst (fetchMovies api)) st) = [] \<and>
     error (run (fst (fetchMovies api)) st) = JNull \<and>
     loading (run (fst (fetchMovies api)) st) = False"
  by (cases d) (simp_all add: fetchMovies_def Let_def run_def)

theorem fetchMovies_non_list_witness:
  "backend_object [Lit ''movies/''] = Resolved (JObj [(''count'', JNum (Finite 0))]) \<and>
   \<not> isArray (JObj [(''count'', JNum (Finite 0))]) \<and>
   movies (run (fst (fetchMovies backend_object)) shown_state) = [] \<and>
   error (run (fst (fetchMovies backend_object)) shown_state) = JNull \<and>
   loading (run (fst (fetchMovies backend_object)) shown_state) = False"
  using fetchMovies_non_list [of backend_object "JObj [(''count'', JNum (Finite 0))]" shown_state]
  by (simp add: backend_object_def)

section \<open>Recommendations\<close>

text \<open>The ids that the check at the head of \<open>fetchRecommended\<close> turns away.\<close>

lemma invalid_movieId_iff:
  "invalid_movieId movieId \<longleftrightarrow> movieId \<in> {IdUndefined, IdNull, IdNum NaN, IdNum (Finite 0)}"
  by (cases movieId) (auto simp: invalid_movieId_def truthy_number_def)

lemma invalid_null: "invalid_movieId IdNull"
  by (simp add: invalid_movieId_def)

lemma valid_seven: "\<not> invalid_movieId (IdNum (Finite 7))"
  by (simp add: invalid_movieId_def truthy_number_def)

text \<open>
  The id -1 is not a positive integer, and it passes the check: the request is issued
  (C1 as stated fails here).
\<close>

theorem fetchRecommended_negative_id_counterexample:
  "requests (fst (fetchRecommended backend_empty ''content'' (IdNum (Finite (- 1))))) =
     [[Lit ''recommended/'', Lit ''?id='', Interp (IdNum (Finite (- 1))), Lit ''&type=content'']]"
  by code_simp

text \<open>
  C1, amended. For every mode and every backend: when the movie id is \<open>undefined\<close>, \<open>null\<close>,
  \<open>NaN\<close> or 0, \<open>fetchRecommended\<close> returns at once, having set the message
  \<open>Please select a valid movie.\<close> and issued no request; for every other id, the negative and
  the fractional ones among them, it issues one request.
\<close>

theorem fetchRecommended_validation:
  "(movieId \<in> {IdUndefined, IdNull, IdNum NaN, IdNum (Finite 0)} \<longrightarrow>
      fetchRecommended api recType movieId =
        ([ConsoleError ''Invalid movieId:'',
          SetRecommendationError (JStr ''Please select a valid movie.'')], Returned) \<and>
      requests (fst (fetchRecommended api recType movieId)) = [] \<and>
      recommendationError (run (fst (fetchRecommended api recType movieId)) st) =
        JStr ''Please select a valid movie.'') \<and>
   (movieId \<notin> {IdUndefined, IdNull, IdNum NaN, IdNum (Finite 0)} \<longrightarrow>
      length (requests (fst (fetchRecommended api recType movieId))) = 1)"
proof (intro conjI impI)
  assume "movieId \<in> {IdUndefined, IdNull, IdNum NaN, IdNum (Finite 0)}"
  then have inv: "invalid_movieId movieId" by (simp add: invalid_movieId_iff)
  then show "fetchRecommended api recType movieId =
        ([ConsoleError ''Invalid movieId:'',
          SetRecommendationError (JStr ''Please select a valid movie.'')], Returned)"
    by (simp add: fetchRecommended_def)
  from inv show "requests (fst (fetchRecommended api recType movieId)) = []"
    by (simp add: fetchRecommended_def)
  from inv show "recommendationError (run (fst (fetchRecommended api recType movieId)) st) =
        JStr ''Please select a valid movie.''"
    by (simp add: fetchRecommended_def run_def)
next
  assume "movieId \<notin> {IdUndefined, IdNull, IdNum NaN, IdNum (Finite 0)}"
  then have "\<not> invalid_movieId movieId" by (simp add: invalid_movieId_iff)
  then show "length (requests (fst (fetchRecommended api recType movieId))) = 1"
    by (simp add: fetchRecommended_def Let_def split: api_result.splits sum.splits)
qed

theorem fetchRecommended_validation_witness:
  "IdNum (Finite 0) \<in> {IdUndefined, IdNull, IdNum NaN, IdNum (Finite 0)} \<and>
   requests (fst (fetchRecommended backend_empty ''collaborative'' (IdNum (Finite 0)))) = [] \<and>
   recommendationError
     (run (fst (fetchRecommended backend_empty ''collaborative'' (IdNum (Finite 0)))) shown_state) =
     JStr ''Please select a valid movie.'' \<and>
   IdNum (Finite 7) \<notin> {IdUndefined, IdNull, IdNum NaN, IdNum (Finite 0)} \<and>
   length (requests (fst (fetchRecommended backend_empty ''content'' (IdNum (Finite 7))))) = 1"
  using fetchRecommended_validation [of "IdNum (Finite 0)" backend_empty "''collaborative''" shown_state]
    fetchRecommended_validation [of "IdNum (Finite 7)" backend_empty "''content''" shown_state]
  by (simp add: run_def)

text \<open>
  C10. Whenever the check of the movie id fails, the state after \<open>fetchRecommended\<close> is the
  state before it with the recommendation error set to the message: the list of
  recommendations, the selected movie id and the loading flag of the recommendations are
  what they were.
\<close>

theorem fetchRecommended_invalid_frame:
  "invalid_movieId movieId \<Longrightarrow>
     recommended (run (fst (fetchRecommended api recType movieId)) st) = recommended st \<and>
     selectedMovieId (run (fst (fetchRecommended api recType movieId)) st) = selectedMovieId st \<and>
     recLoading (run (fst (fetchRecommended api recType movieId)) st) = recLoading st \<and>
     run (fst (fetchRecommended api recType movieId)) st =
       st\<lparr>recommendationError := JStr ''Please select a valid movie.''\<rparr>"
  by (simp add: fetchRecommended_def run_def)

theorem fetchRecommended_invalid_frame_witness:
  "invalid_movieId IdNull \<and>
   recommended (run (fst (fetchRecommended backend_empty ''content'' IdNull)) shown_state) =
     [JObj [(''title'', JStr ''Arrival'')]] \<and>
   selectedMovieId (run (fst (fetchRecommended backend_empty ''content'' IdNull)) shown_state) =
     IdNum (Finite 1) \<and>
   recLoading (run (fst (fetchRecommended backend_empty ''content'' IdNull)) shown_state) = False \<and>
   recommendationError (run (fst (fetchRecommended backend_empty ''content'' IdNull)) shown_state) =
     JStr ''Please select a valid movie.''"
  using fetchRecommended_invalid_frame [OF invalid_null, of backend_empty "''content''" shown_state]
  by (simp add: invalid_null shown_state_def)

text \<open>
  A call with the id \<open>null\<close> while a recommendation is on display: no effect of the call
  empties the list or clears the error, the list stays and the error is set (C2 as stated,
  for whatever movie id, fails here).
\<close>

theorem fetchRecommended_invalid_keeps_list_counterexample:
  "SetRecommended [] \<notin> set (fst (fetchRecommended backend_empty ''content'' IdNull)) \<and>
   SetRecommendationError JNull \<notin> set (fst (fetchRecommended backend_empty ''content'' IdNull)) \<and>
   recommended (run (fst (fetchRecommended backend_empty ''content'' IdNull)) shown_state) =
     [JObj [(''title'', JStr ''Arrival'')]] \<and>
   recommendationError (run (fst (fetchRecommended backend_empty ''content'' IdNull)) shown_state) =
     JStr ''Please select a valid movie.''"
  by (simp add: fetchRecommended_def invalid_movieId_def run_def shown_state_def)

text \<open>
  C2, amended. For every call of \<open>fetchRecommended\<close> whose movie id passes the check, the
  first three effects turn the loading flag on, clear the recommendation error and empty the
  list of recommendations; they come before the request, and so before any outcome of it is
  recorded.
\<close>

theorem fetchRecommended_clears_first:
  "\<not> invalid_movieId movieId \<Longrightarrow>
     (\<exists>u rest. fst (fetchRecommended api recType movieId) =
        [SetRecLoading True, SetRecommendationError JNull, SetRecommended [],
         ConsoleLog ''Fetching recommendations'', ApiGet u] @ rest) \<and>
     recommended (run (take 3 (fst (fetchRecommended api recType movieId))) st) = [] \<and>
     recommendationError (run (take 3 (fst (fetchRecommended api recType movieId))) st) = JNull \<and>
     requests (take 3 (fst (fetchRecommended api recType movieId))) = []"
  by (simp add: fetchRecommended_def Let_def run_def split: api_result.splits sum.splits)

theorem fetchRecommended_clears_first_witness:
  "\<not> invalid_movieId (IdNum (Finite 7)) \<and>
   take 3 (fst (fetchRecommended backend_empty ''content'' (IdNum (Finite 7)))) =
     [SetRecLoading True, SetRecommendationError JNull, SetRecommended []] \<and>
   recommended
     (run (take 3 (fst (fetchRecommended backend_empty ''content'' (IdNum (Finite 7))))) shown_state) = []"
  using fetchRecommended_clears_first [OF valid_seven, of backend_empty "''content''" shown_state]
  by (auto simp: valid_seven)

end
